theory Spec2Isabelle
  imports Complex_Main
begin

section \<open>Floating-point values of the tensor library\<close>

text \<open>
  The scores and losses of \<open>distill_dual_ranker.py\<close> are floating-point numbers. They
  are modelled as the reals extended by the two infinities and not-a-number, with the
  arithmetic of IEEE 754 on those special values. Finite results are exact: rounding,
  overflow of finite values and the sign of zero are left out.
\<close>

datatype fl = Fin real | PInf | NInf | NaN

fun is_finite :: "fl \<Rightarrow> bool" where
  "is_finite (Fin a) = True"
| "is_finite PInf = False"
| "is_finite NInf = False"
| "is_finite NaN = False"

fun fl_neg :: "fl \<Rightarrow> fl" where
  "fl_neg (Fin a) = Fin (- a)"
| "fl_neg PInf = NInf"
| "fl_neg NInf = PInf"
| "fl_neg NaN = NaN"

fun fl_add :: "fl \<Rightarrow> fl \<Rightarrow> fl" where
  "fl_add (Fin a) (Fin b) = Fin (a + b)"
| "fl_add (Fin a) PInf = PInf"
| "fl_add (Fin a) NInf = NInf"
| "fl_add PInf (Fin b) = PInf"
| "fl_add PInf PInf = PInf"
| "fl_add PInf NInf = NaN"
| "fl_add NInf (Fin b) = NInf"
| "fl_add NInf PInf = NaN"
| "fl_add NInf NInf = NInf"
| "fl_add NaN y = NaN"
| "fl_add x NaN = NaN"

definition fl_sub :: "fl \<Rightarrow> fl \<Rightarrow> fl" where
  "fl_sub x y = fl_add x (fl_neg y)"

text \<open>The sign of a value that is not NaN: \<open>-1\<close>, \<open>0\<close> or \<open>1\<close>.\<close>

fun fl_sign :: "fl \<Rightarrow> int" where
  "fl_sign (Fin a) = (if a < 0 then - 1 else if a = 0 then 0 else 1)"
| "fl_sign PInf = 1"
| "fl_sign NInf = - 1"
| "fl_sign NaN = 0"

definition signed_inf :: "int \<Rightarrow> fl" where
  "signed_inf s = (if s = 0 then NaN else if 0 < s then PInf else NInf)"

fun fl_mul :: "fl \<Rightarrow> fl \<Rightarrow> fl" where
  "fl_mul (Fin a) (Fin b) = Fin (a * b)"
| "fl_mul NaN y = NaN"
| "fl_mul x NaN = NaN"
| "fl_mul x y = signed_inf (fl_sign x * fl_sign y)"

fun fl_div :: "fl \<Rightarrow> fl \<Rightarrow> fl" where
  "fl_div NaN y = NaN"
| "fl_div x NaN = NaN"
| "fl_div (Fin a) (Fin b) = (if b = 0 then signed_inf (fl_sign (Fin a)) else Fin (a / b))"
| "fl_div (Fin a) y = Fin 0"
| "fl_div x (Fin b) = signed_inf (fl_sign x * (if b < 0 then - 1 else 1))"
| "fl_div x y = NaN"

text \<open>The maximum of the tensor library hands a NaN on (\<open>torch.max\<close>, \<open>clamp_min\<close>).\<close>

fun fl_max :: "fl \<Rightarrow> fl \<Rightarrow> fl" where
  "fl_max NaN y = NaN"
| "fl_max x NaN = NaN"
| "fl_max PInf y = PInf"
| "fl_max x PInf = PInf"
| "fl_max NInf y = y"
| "fl_max x NInf = x"
| "fl_max (Fin a) (Fin b) = Fin (max a b)"

fun fl_exp :: "fl \<Rightarrow> fl" where
  "fl_exp (Fin a) = Fin (exp a)"
| "fl_exp PInf = PInf"
| "fl_exp NInf = Fin 0"
| "fl_exp NaN = NaN"

fun fl_log :: "fl \<Rightarrow> fl" where
  "fl_log (Fin a) = (if a < 0 then NaN else if a = 0 then NInf else Fin (ln a))"
| "fl_log PInf = PInf"
| "fl_log NInf = NaN"
| "fl_log NaN = NaN"

text \<open>\<open>torch.xlogy(x, y)\<close>: NaN where \<open>y\<close> is NaN, zero where \<open>x\<close> is zero, else
  \<open>x * log y\<close>.\<close>

definition xlogy :: "fl \<Rightarrow> fl \<Rightarrow> fl" where
  "xlogy x y = (if y = NaN then NaN else if x = Fin 0 then Fin 0 else fl_mul x (fl_log y))"

definition fl_sum :: "fl list \<Rightarrow> fl" where
  "fl_sum xs = foldl fl_add (Fin 0) xs"

text \<open>\<open>Tensor.mean()\<close>: the sum over the number of entries; NaN for no entry.\<close>

definition mean :: "fl list \<Rightarrow> fl" where
  "mean xs = fl_div (fl_sum xs) (Fin (real (length xs)))"


section \<open>Tensor operations used by the training core\<close>

text \<open>
  A one-dimensional tensor is a list of values, a two-dimensional tensor the list of
  its rows. The exceptions of Python and of the tensor library are values of
  \<open>error\<close>.
\<close>

datatype error = RuntimeError | IndexError | AttributeError | ZeroDivisionError

type_synonym tensor1 = "fl list"
type_synonym tensor2 = "fl list list"

definition ncols :: "tensor2 \<Rightarrow> nat" where
  "ncols M = (case M of [] \<Rightarrow> 0 | r # _ \<Rightarrow> length r)"

text \<open>\<open>Tensor.diag()\<close> of a matrix: a fresh tensor holding the entries \<open>[i,i]\<close>.
  It is a copy, so a later change of the matrix does not reach it.\<close>

definition diag :: "tensor2 \<Rightarrow> tensor1" where
  "diag M = map (\<lambda>i. M ! i ! i) [0..<min (length M) (ncols M)]"

text \<open>\<open>Tensor.fill_diagonal_(v)\<close>: writes \<open>v\<close> to every entry \<open>[i,i]\<close> that exists.
  The source mutates the tensor in place; the model returns the tensor as it is
  afterwards, and the caller rebinds the variable to it.\<close>

definition fill_diagonal :: "fl \<Rightarrow> tensor2 \<Rightarrow> tensor2" where
  "fill_diagonal v M = map (\<lambda>i. (M ! i)[i := v]) [0..<length M]"

text \<open>\<open>Tensor.max(dim=1)[0]\<close>: the maximum of every row; a row without entries
  has none and the library raises.\<close>

definition row_max :: "tensor1 \<Rightarrow> fl" where
  "row_max r = foldl fl_max (hd r) (tl r)"

definition max_dim1 :: "tensor2 \<Rightarrow> error + tensor1" where
  "max_dim1 M = (if [] \<in> set M then Inl IndexError else Inr (map row_max M))"

definition ones_like :: "tensor1 \<Rightarrow> tensor1" where
  "ones_like xs = map (\<lambda>_. Fin 1) xs"

text \<open>Broadcasting of two one-dimensional tensors: equal lengths, or one of them of
  length one, which is repeated.\<close>

definition broadcast :: "tensor1 \<Rightarrow> tensor1 \<Rightarrow> (tensor1 \<times> tensor1) option" where
  "broadcast xs ys =
     (if length xs = length ys then Some (xs, ys)
      else if length xs = 1 then Some (replicate (length ys) (hd xs), ys)
      else if length ys = 1 then Some (xs, replicate (length xs) (hd ys))
      else None)"

text \<open>\<open>torch.nn.MarginRankingLoss(margin)\<close> with the default mean reduction:
  \<open>(-target * (input1 - input2) + margin).clamp_min(0).mean()\<close>.\<close>

definition margin_ranking_loss :: "fl \<Rightarrow> tensor1 \<Rightarrow> tensor1 \<Rightarrow> tensor1 \<Rightarrow> error + fl" where
  "margin_ranking_loss margin input1 input2 target =
     (case broadcast input1 input2 of
        None \<Rightarrow> Inl RuntimeError
      | Some (x1, x2) \<Rightarrow>
          (case broadcast target (map2 fl_sub x1 x2) of
             None \<Rightarrow> Inl RuntimeError
           | Some (t, d) \<Rightarrow>
               Inr (mean (map2 (\<lambda>y v. fl_max (fl_add (fl_mul (fl_neg y) v) margin) (Fin 0)) t d))))"

definition div_scalar :: "tensor2 \<Rightarrow> fl \<Rightarrow> tensor2" where
  "div_scalar M c = map (map (\<lambda>v. fl_div v c)) M"

text \<open>\<open>F.log_softmax(x, dim=1)\<close>, row by row, the way the library computes it: the
  row maximum is subtracted first, then the logarithm of the sum of the exponentials.\<close>

definition log_softmax_row :: "tensor1 \<Rightarrow> tensor1" where
  "log_softmax_row r =
     (if r = [] then []
      else let m = row_max r;
               shifted = map (\<lambda>v. fl_sub v m) r;
               log_sum = fl_log (fl_sum (map fl_exp shifted))
           in map (\<lambda>v. fl_sub v log_sum) shifted)"

definition log_softmax :: "tensor2 \<Rightarrow> tensor2" where
  "log_softmax M = map log_softmax_row M"

text \<open>\<open>torch.nn.KLDivLoss(reduction='batchmean')\<close> with its default
  \<open>log_target=False\<close>: the target is taken as probabilities, the pointwise term is
  \<open>xlogy(target, target) - target * input\<close> (the form of the library's current
  releases), and the sum is divided by the number of
  rows of the input. Both tensors have one shape in every call of the source (they
  come from the same batch); other shapes are reported as an error here.\<close>

definition kl_div_batchmean :: "tensor2 \<Rightarrow> tensor2 \<Rightarrow> error + fl" where
  "kl_div_batchmean input target =
     (if map length input = map length target
      then Inr (fl_div
             (fl_sum (concat (map2 (map2 (\<lambda>x t. fl_sub (xlogy t t) (fl_mul t x))) input target)))
             (Fin (real (length input))))
      else Inl RuntimeError)"

section \<open>The loss of one batch (lines 153 to 163 of \<open>train\<close>)\<close>

text \<open>Line 163: \<open>loss = alpha * ranking_loss + (1 - alpha) * distillation_loss\<close>.\<close>

definition combined_loss :: "fl \<Rightarrow> fl \<Rightarrow> fl \<Rightarrow> fl" where
  "combined_loss alpha ranking_loss distillation_loss =
     fl_add (fl_mul alpha ranking_loss) (fl_mul (fl_sub (Fin 1) alpha) distillation_loss)"

text \<open>The local variables of the loop body once line 163 has run. \<open>teacher_scores\<close>
  and \<open>student_scores\<close> hold what the source has bound to these names by then: the
  results of the two \<open>log_softmax\<close> calls.\<close>

record batch_locals =
  positive_scores :: tensor1
  negative_scores :: tensor1
  ranking_loss :: fl
  teacher_scores :: tensor2
  student_scores :: tensor2
  distillation_loss :: fl
  loss :: fl

text \<open>Lines 153 and 154 for the student, lines 198 and 199 in \<open>evaluate\<close>: the
  diagonal is copied out, then the score tensor is overwritten in place on its
  diagonal and the row maxima are taken. The third component is the score tensor
  after the call: every later use of the variable sees it.\<close>

definition extract_scores :: "tensor2 \<Rightarrow> error + (tensor1 \<times> tensor1 \<times> tensor2)" where
  "extract_scores scores =
     (let pos = diag scores;
          scores' = fill_diagonal NInf scores
      in case max_dim1 scores' of
           Inl e \<Rightarrow> Inl e
         | Inr neg \<Rightarrow> Inr (pos, neg, scores'))"

text \<open>Lines 156 and 157, and 201 and 202: \<open>loss_fn\<close> is \<open>MarginRankingLoss(margin=1.0)\<close>
  (line 136), the targets are all one.\<close>

definition loss_fn :: "tensor1 \<Rightarrow> tensor1 \<Rightarrow> tensor1 \<Rightarrow> error + fl" where
  "loss_fn = margin_ranking_loss (Fin 1)"

definition compute_loss :: "tensor2 \<Rightarrow> tensor2 \<Rightarrow> fl \<Rightarrow> fl \<Rightarrow> error + batch_locals" where
  "compute_loss teacher_scores0 student_scores0 alpha temperature =
     (case extract_scores student_scores0 of
        Inl e \<Rightarrow> Inl e
      | Inr (pos, neg, student_scores1) \<Rightarrow>
     (case loss_fn pos neg (ones_like pos) of
        Inl e \<Rightarrow> Inl e
      | Inr rl \<Rightarrow>
     (let teacher_scores1 = log_softmax (div_scalar teacher_scores0 temperature);
          student_scores2 = log_softmax (div_scalar student_scores1 temperature)
      in case kl_div_batchmean student_scores2 teacher_scores1 of
           Inl e \<Rightarrow> Inl e
         | Inr dl \<Rightarrow>
             Inr \<lparr>positive_scores = pos, negative_scores = neg, ranking_loss = rl,
                  teacher_scores = teacher_scores1, student_scores = student_scores2,
                  distillation_loss = dl, loss = combined_loss alpha rl dl\<rparr>)))"


section \<open>\<open>DualEncoderModel\<close>\<close>

text \<open>
  The pretrained encoders are collaborators. An encoder is its weights, the flag that
  \<open>isinstance(encoder, DistilBertModel)\<close> tests, and its call: from the weights, the
  module's training flag and the keyword arguments to the encoder's output, or an
  exception. The keyword arguments are the dictionary from field names to integer
  tensors.
\<close>

type_synonym inputs = "string \<rightharpoonup> int list list"

record encoder_output =
  last_hidden_state :: "fl list list list"
  pooler_output :: "tensor2 option"

record 'w encoder =
  is_DistilBertModel :: bool
  weights :: 'w
  call :: "'w \<Rightarrow> bool \<Rightarrow> inputs \<Rightarrow> error + encoder_output"

record 'w DualEncoderModel =
  query_encoder :: "'w encoder"
  doc_encoder :: "'w encoder"
  training :: bool

text \<open>\<open>model.parameters()\<close>: the weights of both encoders.\<close>

definition parameters :: "'w DualEncoderModel \<Rightarrow> 'w \<times> 'w" where
  "parameters m = (weights (query_encoder m), weights (doc_encoder m))"

definition set_parameters :: "'w DualEncoderModel \<Rightarrow> 'w \<times> 'w \<Rightarrow> 'w DualEncoderModel" where
  "set_parameters m w =
     m\<lparr>query_encoder := (query_encoder m)\<lparr>weights := fst w\<rparr>,
       doc_encoder := (doc_encoder m)\<lparr>weights := snd w\<rparr>\<rparr>"

text \<open>\<open>last_hidden_state[:, 0, :]\<close>: position 0 of every sequence.\<close>

definition first_position :: "fl list list list \<Rightarrow> error + tensor2" where
  "first_position h = (if [] \<in> set h then Inl IndexError else Inr (map hd h))"

text \<open>Lines 96 to 101 for one encoder.\<close>

definition embeds :: "'w encoder \<Rightarrow> bool \<Rightarrow> bool \<Rightarrow> inputs \<Rightarrow> error + tensor2" where
  "embeds enc distil mode inp =
     (case call enc (weights enc) mode inp of
        Inl e \<Rightarrow> Inl e
      | Inr out \<Rightarrow>
          if distil then first_position (last_hidden_state out)
          else (case pooler_output out of None \<Rightarrow> Inl AttributeError | Some p \<Rightarrow> Inr p))"

definition dot :: "tensor1 \<Rightarrow> tensor1 \<Rightarrow> fl" where
  "dot u v = fl_sum (map2 fl_mul u v)"

text \<open>Line 103, \<open>torch.matmul(query_embeds, doc_embeds.t())\<close>: entry \<open>[i,j]\<close> is the
  inner product of query row \<open>i\<close> and document row \<open>j\<close>. The library raises when the
  rows of the two tensors differ in length, and only then.\<close>

definition matmul_t :: "tensor2 \<Rightarrow> tensor2 \<Rightarrow> error + tensor2" where
  "matmul_t Q D =
     (if list_all (\<lambda>q. list_all (\<lambda>d. length q = length d) D) Q
      then Inr (map (\<lambda>q. map (\<lambda>d. dot q d) D) Q)
      else Inl RuntimeError)"

text \<open>The test of lines 91 and 96: one of the two encoders is a DistilBERT.\<close>

definition distil :: "'w DualEncoderModel \<Rightarrow> bool" where
  "distil m = (is_DistilBertModel (query_encoder m) \<or> is_DistilBertModel (doc_encoder m))"

text \<open>Lines 91 to 93 for one of the two dictionaries. \<open>dict.pop\<close> changes the caller's
  dictionary, so \<open>forward\<close> returns both dictionaries with the scores.\<close>

definition pop_token_type_ids :: "'w DualEncoderModel \<Rightarrow> inputs \<Rightarrow> inputs" where
  "pop_token_type_ids m inp = (if distil m then inp(''token_type_ids'' := None) else inp)"

text \<open>\<open>DualEncoderModel.forward\<close>. Nothing in it compares the two batch sizes.\<close>

definition forward ::
  "'w DualEncoderModel \<Rightarrow> inputs \<Rightarrow> inputs \<Rightarrow> error + (tensor2 \<times> inputs \<times> inputs)" where
  "forward m query_inputs doc_inputs =
     (let query_inputs' = pop_token_type_ids m query_inputs;
          doc_inputs' = pop_token_type_ids m doc_inputs
      in case embeds (query_encoder m) (distil m) (training m) query_inputs' of
           Inl e \<Rightarrow> Inl e
         | Inr query_embeds \<Rightarrow>
        (case embeds (doc_encoder m) (distil m) (training m) doc_inputs' of
           Inl e \<Rightarrow> Inl e
         | Inr doc_embeds \<Rightarrow>
        (case matmul_t query_embeds doc_embeds of
           Inl e \<Rightarrow> Inl e
         | Inr scores \<Rightarrow> Inr (scores, query_inputs', doc_inputs'))))"

section \<open>The training loop\<close>

text \<open>
  A batch as the data loader yields it. The two loaders of lines 129 and 130 are taken
  as given: \<open>num_batches\<close> is \<open>len(loader)\<close>, and \<open>iter loader k\<close> is the list of batches
  of the \<open>k\<close>-th pass over the loader (the training loader shuffles, so passes differ).
\<close>

record batch =
  query_inputs :: inputs
  doc_inputs :: inputs
  labels :: "fl list"

record DataLoader =
  num_batches :: nat
  iter :: "nat \<Rightarrow> batch list"

text \<open>
  Automatic differentiation and the AdamW update are collaborators as well.
  \<open>backward f w\<close> is the gradient at the weights \<open>w\<close> of the loss as a function \<open>f\<close> of
  the student's weights; \<open>optimizer.zero_grad()\<close> just before makes it the gradient of
  this batch alone. \<open>adamw_step lr g s w\<close> is one \<open>optimizer.step()\<close>: the new optimizer
  state and the new weights.
\<close>

record ('w, 'g, 'o) backend =
  backward :: "('w \<times> 'w \<Rightarrow> error + fl) \<Rightarrow> 'w \<times> 'w \<Rightarrow> 'g"
  adamw_init :: 'o
  adamw_step :: "fl \<Rightarrow> 'g \<Rightarrow> 'o \<Rightarrow> 'w \<times> 'w \<Rightarrow> 'o \<times> ('w \<times> 'w)"

text \<open>The multiplier of \<open>get_linear_schedule_with_warmup\<close> of the transformers library,
  on Python integers.\<close>

definition lr_lambda :: "int \<Rightarrow> int \<Rightarrow> int \<Rightarrow> real" where
  "lr_lambda num_warmup_steps num_training_steps current_step =
     (if current_step < num_warmup_steps
      then real_of_int current_step / real_of_int (max 1 num_warmup_steps)
      else max 0 (real_of_int (num_training_steps - current_step)
                  / real_of_int (max 1 (num_training_steps - num_warmup_steps))))"

text \<open>The learning rate the scheduler of line 134 (\<open>num_warmup_steps=0\<close>) writes into the
  optimizer when its step counter is \<open>step\<close>.\<close>

definition scheduled_lr :: "fl \<Rightarrow> int \<Rightarrow> nat \<Rightarrow> fl" where
  "scheduled_lr learning_rate num_training_steps step =
     fl_mul learning_rate (Fin (lr_lambda 0 num_training_steps (int step)))"

text \<open>What \<open>train\<close> shows: the loss on the progress bar, and the two printed lines.\<close>

datatype event = Postfix fl | AverageLoss nat int fl | ValidationLoss fl

text \<open>The objects \<open>train\<close> mutates: the two models, the optimizer (its state, its
  learning rate and the number of its steps so far), the scheduler (its base rate, the
  length of the schedule and its step counter \<open>last_epoch\<close>), the running loss of the
  epoch and what has been shown so far.\<close>

record ('w, 'o) run =
  model :: "'w DualEncoderModel"
  teacher_model :: "'w DualEncoderModel"
  opt_state :: 'o
  lr :: fl
  optimizer_steps :: nat
  base_lr :: fl
  num_training_steps :: int
  last_epoch :: nat
  total_loss :: fl
  printed :: "event list"

text \<open>Lines 152 to 163 as a function of the student's weights: what \<open>loss.backward()\<close>
  differentiates. The teacher's scores enter as a constant (line 150 runs under
  \<open>torch.no_grad()\<close>).\<close>

definition student_loss ::
  "'w DualEncoderModel \<Rightarrow> tensor2 \<Rightarrow> inputs \<Rightarrow> inputs \<Rightarrow> fl \<Rightarrow> fl \<Rightarrow> 'w \<times> 'w
     \<Rightarrow> error + batch_locals" where
  "student_loss m teacher_scores0 q d alpha temperature w =
     (case forward (set_parameters m w) q d of
        Inl e \<Rightarrow> Inl e
      | Inr (scores, _, _) \<Rightarrow> compute_loss teacher_scores0 scores alpha temperature)"

text \<open>One pass of the inner loop body, lines 145 to 171. An exception leaves the
  objects as they are at the raise. Line 147 reads the labels of the batch; nothing
  after it uses them.\<close>

definition train_step ::
  "('w, 'g, 'o) backend \<Rightarrow> fl \<Rightarrow> fl \<Rightarrow> batch \<Rightarrow> ('w, 'o) run \<Rightarrow> ('w, 'o) run \<times> error option" where
  "train_step T alpha temperature b st =
     (case forward (teacher_model st) (query_inputs b) (doc_inputs b) of
        Inl e \<Rightarrow> (st, Some e)
      | Inr (teacher_scores0, q, d) \<Rightarrow>
          (let f = student_loss (model st) teacher_scores0 q d alpha temperature;
               w = parameters (model st)
           in case f w of
                Inl e \<Rightarrow> (st, Some e)
              | Inr l \<Rightarrow>
                  (let g = backward T (\<lambda>v. map_sum id loss (f v)) w;
                       (s', w') = adamw_step T (lr st) g (opt_state st) w;
                       n = Suc (last_epoch st)
                   in (st\<lparr>model := set_parameters (model st) w',
                          opt_state := s',
                          optimizer_steps := Suc (optimizer_steps st),
                          last_epoch := n,
                          lr := scheduled_lr (base_lr st) (num_training_steps st) n,
                          total_loss := fl_add (total_loss st) (loss l),
                          printed := printed st @ [Postfix (loss l)]\<rparr>, None))))"

fun train_batches ::
  "('w, 'g, 'o) backend \<Rightarrow> fl \<Rightarrow> fl \<Rightarrow> batch list \<Rightarrow> ('w, 'o) run \<Rightarrow> ('w, 'o) run \<times> error option" where
  "train_batches T alpha temperature [] st = (st, None)"
| "train_batches T alpha temperature (b # bs) st =
     (case train_step T alpha temperature b st of
        (st', Some e) \<Rightarrow> (st', Some e)
      | (st', None) \<Rightarrow> train_batches T alpha temperature bs st')"

section \<open>\<open>evaluate\<close>\<close>

text \<open>The loop of lines 192 to 203, with \<open>total_loss\<close> as the accumulator \<open>acc\<close>.\<close>

fun evaluate_batches ::
  "'w DualEncoderModel \<Rightarrow> (tensor1 \<Rightarrow> tensor1 \<Rightarrow> tensor1 \<Rightarrow> error + fl) \<Rightarrow> batch list \<Rightarrow> fl
     \<Rightarrow> error + fl" where
  "evaluate_batches m lf [] acc = Inr acc"
| "evaluate_batches m lf (b # bs) acc =
     (case forward m (query_inputs b) (doc_inputs b) of
        Inl e \<Rightarrow> Inl e
      | Inr (scores, _, _) \<Rightarrow>
     (case extract_scores scores of
        Inl e \<Rightarrow> Inl e
      | Inr (pos, neg, _) \<Rightarrow>
     (case lf pos neg (ones_like pos) of
        Inl e \<Rightarrow> Inl e
      | Inr l \<Rightarrow> evaluate_batches m lf bs (fl_add acc l))))"

text \<open>\<open>evaluate(model, val_loader, device, loss_fn)\<close>, on the \<open>k\<close>-th pass over the
  loader: the model as it is afterwards (in evaluation mode), and the average that is
  printed, or the exception.\<close>

definition evaluate ::
  "'w DualEncoderModel \<Rightarrow> DataLoader \<Rightarrow> nat \<Rightarrow> (tensor1 \<Rightarrow> tensor1 \<Rightarrow> tensor1 \<Rightarrow> error + fl)
     \<Rightarrow> 'w DualEncoderModel \<times> (error + fl)" where
  "evaluate m val_loader k lf =
     (let m' = m\<lparr>training := False\<rparr>
      in (m', case evaluate_batches m' lf (iter val_loader k) (Fin 0) of
                Inl e \<Rightarrow> Inl e
              | Inr acc \<Rightarrow>
                  if num_batches val_loader = 0 then Inl ZeroDivisionError
                  else Inr (fl_div acc (Fin (real (num_batches val_loader))))))"

section \<open>\<open>train\<close>\<close>

text \<open>One pass of the outer loop body, lines 140 to 176.\<close>

definition train_epoch ::
  "('w, 'g, 'o) backend \<Rightarrow> fl \<Rightarrow> fl \<Rightarrow> DataLoader \<Rightarrow> DataLoader \<Rightarrow> int \<Rightarrow> nat \<Rightarrow> ('w, 'o) run
     \<Rightarrow> ('w, 'o) run \<times> error option" where
  "train_epoch T alpha temperature train_loader val_loader epochs epoch st =
     (let st1 = st\<lparr>model := (model st)\<lparr>training := True\<rparr>,
                   teacher_model := (teacher_model st)\<lparr>training := False\<rparr>,
                   total_loss := Fin 0\<rparr>
      in case train_batches T alpha temperature (iter train_loader epoch) st1 of
           (st2, Some e) \<Rightarrow> (st2, Some e)
         | (st2, None) \<Rightarrow>
             if num_batches train_loader = 0 then (st2, Some ZeroDivisionError)
             else
               (let avg_train_loss = fl_div (total_loss st2) (Fin (real (num_batches train_loader)));
                    st3 = st2\<lparr>printed := printed st2 @ [AverageLoss (epoch + 1) epochs avg_train_loss]\<rparr>
                in case evaluate (model st3) val_loader epoch loss_fn of
                     (m, Inl e) \<Rightarrow> (st3\<lparr>model := m\<rparr>, Some e)
                   | (m, Inr avg_val_loss) \<Rightarrow>
                       (st3\<lparr>model := m, printed := printed st3 @ [ValidationLoss avg_val_loss]\<rparr>,
                        None)))"

fun train_epochs ::
  "('w, 'g, 'o) backend \<Rightarrow> fl \<Rightarrow> fl \<Rightarrow> DataLoader \<Rightarrow> DataLoader \<Rightarrow> int \<Rightarrow> nat list \<Rightarrow> ('w, 'o) run
     \<Rightarrow> ('w, 'o) run \<times> error option" where
  "train_epochs T alpha temperature train_loader val_loader epochs [] st = (st, None)"
| "train_epochs T alpha temperature train_loader val_loader epochs (epoch # rest) st =
     (case train_epoch T alpha temperature train_loader val_loader epochs epoch st of
        (st', Some e) \<Rightarrow> (st', Some e)
      | (st', None) \<Rightarrow> train_epochs T alpha temperature train_loader val_loader epochs rest st')"

text \<open>Lines 132 to 137: the objects as \<open>train\<close> builds them before the first epoch. The
  optimizer is built over \<open>model.parameters()\<close>, the student's; the scheduler has no
  warmup and \<open>len(train_loader) * epochs\<close> steps, and sets the first learning rate.\<close>

definition init_run ::
  "('w, 'g, 'o) backend \<Rightarrow> 'w DualEncoderModel \<Rightarrow> 'w DualEncoderModel \<Rightarrow> DataLoader \<Rightarrow> int \<Rightarrow> fl
     \<Rightarrow> ('w, 'o) run" where
  "init_run T student teacher train_loader epochs learning_rate =
     (let total_steps = int (num_batches train_loader) * epochs
      in \<lparr>model = student, teacher_model = teacher, opt_state = adamw_init T,
          lr = scheduled_lr learning_rate total_steps 0, optimizer_steps = 0,
          base_lr = learning_rate, num_training_steps = total_steps, last_epoch = 0,
          total_loss = Fin 0, printed = []\<rparr>)"

definition train ::
  "('w, 'g, 'o) backend \<Rightarrow> 'w DualEncoderModel \<Rightarrow> 'w DualEncoderModel \<Rightarrow> DataLoader \<Rightarrow> DataLoader
     \<Rightarrow> int \<Rightarrow> fl \<Rightarrow> fl \<Rightarrow> fl \<Rightarrow> ('w, 'o) run \<times> error option" where
  "train T student teacher train_loader val_loader epochs learning_rate alpha temperature =
     train_epochs T alpha temperature train_loader val_loader epochs [0..<nat epochs]
       (init_run T student teacher train_loader epochs learning_rate)"

section \<open>The ranking loss in the words of the specification\<close>

text \<open>
  The specification's negative score of example \<open>i\<close>: the maximum over row \<open>i\<close> of the
  entries off the diagonal. Its ranking loss: the mean over \<open>i\<close> of
  \<open>max(0, 1.0 - (pos_i - neg_i))\<close> with \<open>pos_i\<close> the diagonal entry.
\<close>

definition spec_neg :: "tensor2 \<Rightarrow> nat \<Rightarrow> fl" where
  "spec_neg M i = row_max (map (\<lambda>j. M ! i ! j) (filter (\<lambda>j. j \<noteq> i) [0..<length M]))"

definition spec_ranking_loss :: "tensor2 \<Rightarrow> fl" where
  "spec_ranking_loss M =
     mean (map (\<lambda>i. fl_max (Fin 0) (fl_sub (Fin 1) (fl_sub (M ! i ! i) (spec_neg M i))))
             [0..<length M])"

section \<open>A small instance\<close>

text \<open>
  Concrete collaborators on which the definitions above can be evaluated. The weights
  of a toy encoder are one floating-point number \<open>w\<close>; it needs the field \<open>input_ids\<close>,
  embeds a token sequence as the one-entry vector \<open>w\<close> times the sum of its token ids,
  and has the hidden state \<open>w\<close> times the token id at every position.
\<close>

definition toy_call :: "fl \<Rightarrow> bool \<Rightarrow> inputs \<Rightarrow> error + encoder_output" where
  "toy_call w mode inp =
     (case inp ''input_ids'' of
        None \<Rightarrow> Inl RuntimeError
      | Some ids \<Rightarrow>
          Inr \<lparr>last_hidden_state = map (map (\<lambda>t. [fl_mul w (Fin (real_of_int t))])) ids,
               pooler_output = Some (map (\<lambda>seq. [fl_mul w (Fin (real_of_int (sum_list seq)))]) ids)\<rparr>)"

definition toy_encoder :: "bool \<Rightarrow> fl \<Rightarrow> fl encoder" where
  "toy_encoder db w = \<lparr>is_DistilBertModel = db, weights = w, call = toy_call\<rparr>"

definition toy_model :: "bool \<Rightarrow> fl \<Rightarrow> fl DualEncoderModel" where
  "toy_model db w = \<lparr>query_encoder = toy_encoder db w, doc_encoder = toy_encoder db w, training = False\<rparr>"

definition ids :: "int list list \<Rightarrow> inputs" where
  "ids t = [''input_ids'' \<mapsto> t]"

text \<open>A stand-in for the differentiation and the optimizer: the gradient is the loss
  at the current weights, a step counts itself and lowers both weights by one.\<close>

definition toy_backend :: "(fl, fl, nat) backend" where
  "toy_backend =
     \<lparr>backward = (\<lambda>f w. case f w of Inl e \<Rightarrow> NaN | Inr l \<Rightarrow> l),
      adamw_init = 0,
      adamw_step = (\<lambda>rate g s w. (Suc s, (fl_sub (fst w) (Fin 1), fl_sub (snd w) (Fin 1))))\<rparr>"

definition toy_batch :: "int list list \<Rightarrow> int list list \<Rightarrow> fl list \<Rightarrow> batch" where
  "toy_batch q d ls = \<lparr>query_inputs = ids q, doc_inputs = ids d, labels = ls\<rparr>"

definition toy_run :: "fl \<Rightarrow> fl \<Rightarrow> (fl, nat) run" where
  "toy_run ws wt =
     \<lparr>model = toy_model True ws, teacher_model = toy_model False wt, opt_state = 0,
      lr = Fin 1, optimizer_steps = 0, base_lr = Fin 1, num_training_steps = 4,
      last_epoch = 0, total_loss = Fin 0, printed = []\<rparr>"

text \<open>A loader that yields the same batches on every pass.\<close>

definition toy_loader :: "batch list \<Rightarrow> DataLoader" where
  "toy_loader bs = \<lparr>num_batches = length bs, iter = (\<lambda>k. bs)\<rparr>"

section \<open>Batches that differ in their labels only\<close>

definition same_inputs :: "batch \<Rightarrow> batch \<Rightarrow> bool" where
  "same_inputs b b' = (query_inputs b = query_inputs b' \<and> doc_inputs b = doc_inputs b')"

text \<open>Two loaders of the same length whose passes agree batch by batch on the query
  and document inputs.\<close>

definition same_inputs_loader :: "DataLoader \<Rightarrow> DataLoader \<Rightarrow> bool" where
  "same_inputs_loader dl dl' =
     (num_batches dl = num_batches dl' \<and> (\<forall>k. list_all2 same_inputs (iter dl k) (iter dl' k)))"

section \<open>Score matrices of a batch\<close>

text \<open>\<open>S\<close> is the score matrix of model \<open>m\<close> on batch \<open>b\<close>, and it is \<open>B\<times>B\<close> with
  \<open>B \<ge> 2\<close>.\<close>

definition square_scores :: "'w DualEncoderModel \<Rightarrow> batch \<Rightarrow> tensor2 \<Rightarrow> bool" where
  "square_scores m b S =
     (map_sum id fst (forward m (query_inputs b) (doc_inputs b)) = Inr S
      \<and> 2 \<le> length S \<and> list_all (\<lambda>r. length r = length S) S)"

section \<open>Verified properties\<close>

subsection \<open>Arithmetic of the special values\<close>

lemma fl_max_NInf_right: "fl_max a NInf = a"
  by (cases a) simp_all

lemma fl_max_NInf_left: "fl_max NInf a = a"
  by (cases a) simp_all

lemma fl_max_commute: "fl_max a b = fl_max b a"
  by (cases a; cases b) (simp_all add: max.commute)

lemma fl_add_commute: "fl_add a b = fl_add b a"
  by (cases a; cases b) simp_all

lemma fl_mul_minus_one: "fl_mul (Fin (- 1)) v = fl_neg v"
  by (cases v) (simp_all add: signed_inf_def)

lemma row_max_foldl: "xs \<noteq> [] \<Longrightarrow> row_max xs = foldl fl_max NInf xs"
  by (cases xs) (simp_all add: row_max_def fl_max_NInf_left)

lemma others_take_drop:
  "i < length xs \<Longrightarrow>
   map (\<lambda>j. xs ! j) (filter (\<lambda>j. j \<noteq> i) [0..<length xs]) = take i xs @ drop (Suc i) xs"
proof -
  assume i: "i < length xs"
  have split: "[0..<length xs] = [0..<i] @ i # [Suc i..<length xs]"
    using i by (metis upt_conv_Cons upt_add_eq_append le_add_diff_inverse less_imp_le_nat zero_le)
  have a: "filter (\<lambda>j. j \<noteq> i) [0..<i] = [0..<i]" by (rule filter_True) simp
  have b: "filter (\<lambda>j. j \<noteq> i) [Suc i..<length xs] = [Suc i..<length xs]" by (rule filter_True) simp
  have c: "map (\<lambda>j. xs ! j) [0..<i] = take i xs"
    using i by (intro nth_equalityI) simp_all
  have d: "map (\<lambda>j. xs ! j) [Suc i..<length xs] = drop (Suc i) xs"
    using i by (intro nth_equalityI) simp_all
  show ?thesis
    by (subst split) (simp add: a b c d del: upt_Suc)
qed

lemma masked_row_max:
  assumes "i < length xs" "2 \<le> length xs"
  shows "row_max (xs[i := NInf]) = row_max (map (\<lambda>j. xs ! j) (filter (\<lambda>j. j \<noteq> i) [0..<length xs]))"
proof -
  have ne: "take i xs @ drop (Suc i) xs \<noteq> []"
  proof -
    have "length (take i xs @ drop (Suc i) xs) = length xs - 1"
      using assms(1) by (simp add: min_def)
    with assms(2) have "0 < length (take i xs @ drop (Suc i) xs)" by linarith
    then show ?thesis by auto
  qed
  have upd: "xs[i := NInf] = take i xs @ NInf # drop (Suc i) xs"
    using assms(1) by (rule upd_conv_take_nth_drop)
  have "xs[i := NInf] \<noteq> []" using assms by auto
  then have "row_max (xs[i := NInf]) = foldl fl_max NInf (take i xs @ NInf # drop (Suc i) xs)"
    by (simp add: row_max_foldl upd)
  also have "\<dots> = foldl fl_max NInf (take i xs @ drop (Suc i) xs)"
    by (simp add: fl_max_NInf_right)
  also have "\<dots> = row_max (take i xs @ drop (Suc i) xs)"
    using ne by (simp add: row_max_foldl)
  finally show ?thesis using assms(1) by (simp add: others_take_drop)
qed

lemma hinge_pointwise:
  "fl_max (fl_add (fl_mul (Fin (- 1)) v) (Fin 1)) (Fin 0) = fl_max (Fin 0) (fl_sub (Fin 1) v)"
  by (simp only: fl_mul_minus_one fl_sub_def fl_add_commute [of "fl_neg v"] fl_max_commute [of _ "Fin 0"])

lemma ncols_square: "M \<noteq> [] \<Longrightarrow> \<forall>r\<in>set M. length r = length M \<Longrightarrow> ncols M = length M"
  by (cases M) (simp_all add: ncols_def)

lemma loss_fn_same_length:
  assumes "length pos = length neg"
  shows "loss_fn pos neg (ones_like pos) =
         Inr (mean (map (\<lambda>i. fl_max (Fin 0) (fl_sub (Fin 1) (fl_sub (pos ! i) (neg ! i))))
                      [0..<length pos]))"
proof -
  have "map2 (\<lambda>y v. fl_max (fl_add (fl_mul (fl_neg y) v) (Fin 1)) (Fin 0))
          (ones_like pos) (map2 fl_sub pos neg)
        = map (\<lambda>i. fl_max (Fin 0) (fl_sub (Fin 1) (fl_sub (pos ! i) (neg ! i)))) [0..<length pos]"
    using assms by (intro nth_equalityI) (simp_all add: ones_like_def hinge_pointwise)
  then show ?thesis
    using assms by (simp add: loss_fn_def margin_ranking_loss_def broadcast_def ones_like_def)
qed


subsection \<open>The combined loss\<close>

lemma compute_loss_combined:
  "compute_loss t s alpha temperature = Inr l \<Longrightarrow>
   loss l = combined_loss alpha (ranking_loss l) (distillation_loss l)"
  by (auto simp: compute_loss_def Let_def split: sum.splits prod.splits)

text \<open>
  Claim C6, as the code has it. Line 163 computes
  \<open>alpha * ranking_loss + (1 - alpha) * distillation_loss\<close> in floating point. For
  finite losses and a finite \<open>alpha\<close> this is the real number
  \<open>\<alpha>\<cdot>L_rank + (1-\<alpha>)\<cdot>L_distill\<close>; \<open>alpha = 1\<close> then gives the ranking loss and
  \<open>alpha = 0\<close> the distillation loss.
\<close>

theorem combined_loss_finite:
  "combined_loss (Fin a) (Fin r) (Fin d) = Fin (a * r + (1 - a) * d)
   \<and> combined_loss (Fin 1) (Fin r) (Fin d) = Fin r
   \<and> combined_loss (Fin 0) (Fin r) (Fin d) = Fin d"
  by (simp add: combined_loss_def fl_sub_def)

theorem combined_loss_finite_witness:
  "combined_loss (Fin (1 / 2)) (Fin 2) (Fin 4) = Fin 3
   \<and> combined_loss (Fin 1) (Fin 2) (Fin 4) = Fin 2
   \<and> combined_loss (Fin 0) (Fin 2) (Fin 4) = Fin 4"
  using combined_loss_finite [of "1 / 2" 2 4] combined_loss_finite [of 1 2 4]
  by simp

text \<open>
  Claim C6 as stated speaks of every loss value. With \<open>alpha = 1\<close>, a ranking loss of
  zero and a distillation loss that is NaN, the combined loss is NaN and not the
  ranking loss: zero times NaN is NaN.
\<close>

theorem combined_loss_alpha_one_counterexample:
  "combined_loss (Fin 1) (Fin 0) NaN \<noteq> Fin 0"
  by (simp add: combined_loss_def fl_sub_def)

subsection \<open>The ranking loss\<close>

lemma ranking_pipeline_square:
  assumes B: "2 \<le> length M" and sq: "\<forall>r\<in>set M. length r = length M"
  shows "\<exists>pos neg M'. extract_scores M = Inr (pos, neg, M')
           \<and> pos = map (\<lambda>i. M ! i ! i) [0..<length M]
           \<and> neg = map (spec_neg M) [0..<length M]
           \<and> loss_fn pos neg (ones_like pos) = Inr (spec_ranking_loss M)"
proof -
  have ne: "M \<noteq> []" using B by auto
  have rows: "\<And>i. i < length M \<Longrightarrow> length (M ! i) = length M"
    using sq by simp
  have pos: "diag M = map (\<lambda>i. M ! i ! i) [0..<length M]"
    by (simp add: diag_def ncols_square [OF ne sq])
  have noempty: "[] \<notin> set (fill_diagonal NInf M)"
  proof
    assume "[] \<in> set (fill_diagonal NInf M)"
    then obtain i where i: "i < length M" and e: "[] = (M ! i)[i := NInf]"
      by (auto simp: fill_diagonal_def)
    from e have "length ((M ! i)[i := NInf]) = 0" by (simp only: list.size)
    then have "length (M ! i) = 0" by simp
    with rows [OF i] B show False by simp
  qed
  have neg: "map row_max (fill_diagonal NInf M) = map (spec_neg M) [0..<length M]"
  proof (intro nth_equalityI)
    show "length (map row_max (fill_diagonal NInf M)) = length (map (spec_neg M) [0..<length M])"
      by (simp add: fill_diagonal_def)
  next
    fix i assume "i < length (map row_max (fill_diagonal NInf M))"
    then have i: "i < length M" by (simp add: fill_diagonal_def)
    have "row_max ((M ! i)[i := NInf])
          = row_max (map (\<lambda>j. M ! i ! j) (filter (\<lambda>j. j \<noteq> i) [0..<length (M ! i)]))"
      using i B rows [OF i] by (intro masked_row_max) simp_all
    then show "map row_max (fill_diagonal NInf M) ! i = map (spec_neg M) [0..<length M] ! i"
      using i rows [OF i] by (simp add: fill_diagonal_def spec_neg_def)
  qed
  have ex: "extract_scores M =
              Inr (map (\<lambda>i. M ! i ! i) [0..<length M], map (spec_neg M) [0..<length M],
                   fill_diagonal NInf M)"
    using noempty by (simp add: extract_scores_def Let_def max_dim1_def pos neg)
  have "loss_fn (map (\<lambda>i. M ! i ! i) [0..<length M]) (map (spec_neg M) [0..<length M])
          (ones_like (map (\<lambda>i. M ! i ! i) [0..<length M])) = Inr (spec_ranking_loss M)"
  proof -
    have "map (\<lambda>x. fl_max (Fin 0) (fl_sub (Fin 1)
                 (fl_sub (map (\<lambda>i. M ! i ! i) [0..<length M] ! x)
                         (map (spec_neg M) [0..<length M] ! x)))) [0..<length M]
          = map (\<lambda>i. fl_max (Fin 0) (fl_sub (Fin 1) (fl_sub (M ! i ! i) (spec_neg M i))))
              [0..<length M]"
      by (intro map_cong refl) simp
    then show ?thesis
      unfolding spec_ranking_loss_def
      by (subst loss_fn_same_length) (simp_all only: length_map length_upt diff_zero)
  qed
  with ex show ?thesis by blast
qed


lemma compute_loss_ranking:
  assumes "compute_loss T M alpha temperature = Inr l"
  shows "\<exists>pos neg M'. extract_scores M = Inr (pos, neg, M')
           \<and> positive_scores l = pos \<and> negative_scores l = neg
           \<and> loss_fn pos neg (ones_like pos) = Inr (ranking_loss l)"
  using assms by (auto simp: compute_loss_def Let_def split: sum.splits prod.splits)

text \<open>
  Claim C4. For a \<open>B\<times>B\<close> student score matrix with \<open>B \<ge> 2\<close>, lines 153 to 157 (and 198
  to 202 in \<open>evaluate\<close>) raise nothing; the positive scores are the diagonal, the
  negative score of row \<open>i\<close> is the maximum over the entries of row \<open>i\<close> off the diagonal,
  and the ranking loss is the mean of \<open>max(0, 1.0 - (pos_i - neg_i))\<close>. These are the
  values that \<open>train\<close> holds in \<open>positive_scores\<close>, \<open>negative_scores\<close> and \<open>ranking_loss\<close>.
\<close>

theorem ranking_loss_formula:
  assumes "2 \<le> length M" and "\<forall>r\<in>set M. length r = length M"
      and "compute_loss T M alpha temperature = Inr l"
  shows "(\<exists>pos neg M'. extract_scores M = Inr (pos, neg, M')
           \<and> pos = map (\<lambda>i. M ! i ! i) [0..<length M]
           \<and> neg = map (spec_neg M) [0..<length M]
           \<and> loss_fn pos neg (ones_like pos) = Inr (spec_ranking_loss M))
         \<and> positive_scores l = map (\<lambda>i. M ! i ! i) [0..<length M]
         \<and> negative_scores l = map (spec_neg M) [0..<length M]
         \<and> ranking_loss l = spec_ranking_loss M"
  using ranking_pipeline_square [OF assms(1,2)] compute_loss_ranking [OF assms(3)]
  by auto

theorem ranking_loss_formula_witness:
  "\<exists>l. compute_loss [[Fin 5, Fin 0, Fin 0], [Fin 0, Fin 5, Fin 0], [Fin 0, Fin 0, Fin 5]]
          [[Fin 1, Fin 2, Fin 0], [Fin 2, Fin 1, Fin 0], [Fin 0, Fin 2, Fin 1]]
          (Fin (1 / 2)) (Fin 2) = Inr l
       \<and> positive_scores l = [Fin 1, Fin 1, Fin 1] \<and> negative_scores l = [Fin 2, Fin 2, Fin 2]
       \<and> ranking_loss l = Fin 2"
proof -
  let ?M = "[[Fin 1, Fin 2, Fin 0], [Fin 2, Fin 1, Fin 0], [Fin 0, Fin 2, Fin 1]]"
  let ?T = "[[Fin 5, Fin 0, Fin 0], [Fin 0, Fin 5, Fin 0], [Fin 0, Fin 0, Fin 5]]"
  have v: "spec_ranking_loss ?M = Fin 2"
    by (simp add: spec_ranking_loss_def spec_neg_def row_max_def mean_def fl_sum_def fl_sub_def upt_rec)
  have n: "map (spec_neg ?M) [0..<length ?M] = [Fin 2, Fin 2, Fin 2]"
    by (simp add: spec_neg_def row_max_def upt_rec)
  have p: "map (\<lambda>i. ?M ! i ! i) [0..<length ?M] = [Fin 1, Fin 1, Fin 1]"
    by (simp add: upt_rec)
  have "\<exists>l. compute_loss ?T ?M (Fin (1 / 2)) (Fin 2) = Inr l"
    by (simp add: compute_loss_def extract_scores_def diag_def ncols_def fill_diagonal_def
          max_dim1_def loss_fn_def margin_ranking_loss_def broadcast_def ones_like_def
          log_softmax_def div_scalar_def kl_div_batchmean_def log_softmax_row_def Let_def
          atLeast0_lessThan_Suc numeral_3_eq_3)
  then obtain l where l: "compute_loss ?T ?M (Fin (1 / 2)) (Fin 2) = Inr l" ..
  have a: "2 \<le> length ?M" and b: "\<forall>r\<in>set ?M. length r = length ?M" by simp_all
  from ranking_loss_formula [OF a b l] l show ?thesis
    unfolding v n p by blast
qed


subsection \<open>Unfolding the definitions on concrete inputs\<close>

lemmas toy_defs = toy_call_def toy_encoder_def toy_model_def ids_def toy_backend_def
  toy_batch_def toy_run_def

lemmas fwd_defs = forward_def embeds_def distil_def pop_token_type_ids_def matmul_t_def dot_def
  first_position_def Let_def

lemmas loss_defs = compute_loss_def extract_scores_def diag_def ncols_def fill_diagonal_def
  max_dim1_def row_max_def loss_fn_def margin_ranking_loss_def broadcast_def ones_like_def
  mean_def fl_sum_def fl_sub_def log_softmax_def log_softmax_row_def div_scalar_def
  kl_div_batchmean_def xlogy_def combined_loss_def signed_inf_def atLeast0_lessThan_Suc

lemmas step_defs = train_step_def student_loss_def parameters_def set_parameters_def
  scheduled_lr_def lr_lambda_def

subsection \<open>The forward pass\<close>

lemma matmul_t_shape:
  assumes "\<forall>u\<in>set Q. \<forall>v\<in>set D. length u = length v"
  shows "matmul_t Q D = Inr (map (\<lambda>u. map (dot u) D) Q)"
  using assms by (simp add: matmul_t_def list_all_iff)

text \<open>
  Claim C5, as the code has it. \<open>forward\<close> never compares the two batch sizes and has
  no shape error of its own: when the encoders return \<open>Bq\<close> query embeddings and \<open>Bd\<close>
  document embeddings of one dimension, it returns the \<open>Bq\<times>Bd\<close> matrix of their inner
  products, square or not.
\<close>

theorem forward_ignores_batch_sizes:
  assumes "embeds (query_encoder m) (distil m) (training m) (pop_token_type_ids m qi) = Inr Q"
      and "embeds (doc_encoder m) (distil m) (training m) (pop_token_type_ids m di) = Inr D"
      and "\<forall>u\<in>set Q. \<forall>v\<in>set D. length u = length v"
  shows "\<exists>S. forward m qi di = Inr (S, pop_token_type_ids m qi, pop_token_type_ids m di)
           \<and> length S = length Q
           \<and> (\<forall>i<length Q. length (S ! i) = length D
                 \<and> (\<forall>j<length D. S ! i ! j = dot (Q ! i) (D ! j)))"
  using assms by (simp add: forward_def Let_def matmul_t_shape)

theorem forward_ignores_batch_sizes_witness:
  "\<exists>S. forward (toy_model True (Fin 1)) (ids [[1, 5]]) (ids [[1, 5], [2, 5]])
          = Inr (S, pop_token_type_ids (toy_model True (Fin 1)) (ids [[1, 5]]),
                 pop_token_type_ids (toy_model True (Fin 1)) (ids [[1, 5], [2, 5]]))
        \<and> length S = 1 \<and> length (S ! 0) = 2 \<and> S ! 0 ! 1 = Fin 2"
proof -
  let ?m = "toy_model True (Fin 1)"
  have q: "embeds (query_encoder ?m) (distil ?m) (training ?m) (pop_token_type_ids ?m (ids [[1, 5]]))
             = Inr [[Fin 1]]"
    by (simp add: toy_defs fwd_defs)
  have d: "embeds (doc_encoder ?m) (distil ?m) (training ?m)
             (pop_token_type_ids ?m (ids [[1, 5], [2, 5]])) = Inr [[Fin 1], [Fin 2]]"
    by (simp add: toy_defs fwd_defs)
  have w: "\<forall>u\<in>set [[Fin 1]]. \<forall>v\<in>set [[Fin 1], [Fin 2]]. length u = length v" by simp
  from forward_ignores_batch_sizes [OF q d w] show ?thesis
    by (auto simp: dot_def fl_sum_def)
qed

text \<open>
  Claim C5 as stated fails: one query against two documents gives a \<open>1\<times>2\<close> score
  matrix, not an error.
\<close>

theorem forward_batch_sizes_counterexample:
  "map_sum id fst (forward (toy_model False (Fin 1)) (ids [[1]]) (ids [[1], [2]]))
     = Inr [[Fin 1, Fin 2]]"
  by (simp add: toy_defs fwd_defs fl_sum_def)

subsection \<open>The distillation term\<close>

text \<open>
  Claim C1 at a concrete input: teacher and student scores are the same \<open>2\<times>2\<close> matrix of
  zeros, the temperature is one. Line 154 has overwritten the student's diagonal by
  then, so line 160 takes the log-softmax of the masked student matrix: its diagonal is
  negative infinity and the rest zero, while the teacher's tensor, and the log-softmax
  of the student's original scores, are \<open>- ln 2\<close> everywhere.
\<close>

theorem distillation_sees_masked_student:
  "\<exists>l. compute_loss [[Fin 0, Fin 0], [Fin 0, Fin 0]] [[Fin 0, Fin 0], [Fin 0, Fin 0]]
          (Fin (1 / 2)) (Fin 1) = Inr l
       \<and> teacher_scores l = [[Fin (- ln 2), Fin (- ln 2)], [Fin (- ln 2), Fin (- ln 2)]]
       \<and> student_scores l = [[NInf, Fin 0], [Fin 0, NInf]]
       \<and> log_softmax (div_scalar [[Fin 0, Fin 0], [Fin 0, Fin 0]] (Fin 1))
           = [[Fin (- ln 2), Fin (- ln 2)], [Fin (- ln 2), Fin (- ln 2)]]"
  by (simp add: loss_defs)

subsection \<open>One batch step\<close>

lemma fl_add_zero_left: "fl_add (Fin 0) x = x"
  by (cases x) simp_all

lemma set_parameters_parameters: "set_parameters m (parameters m) = m"
  by (simp add: set_parameters_def parameters_def)

lemma parameters_set_parameters: "parameters (set_parameters m w) = w"
  by (simp add: set_parameters_def parameters_def)

lemma train_step_success:
  assumes "forward (teacher_model st) (query_inputs b) (doc_inputs b) = Inr (ts, q, d)"
      and "student_loss (model st) ts q d alpha temperature (parameters (model st)) = Inr l"
  shows "train_step T alpha temperature b st =
           (let f = student_loss (model st) ts q d alpha temperature;
                w = parameters (model st);
                r = adamw_step T (lr st) (backward T (\<lambda>v. map_sum id loss (f v)) w) (opt_state st) w
            in (st\<lparr>model := set_parameters (model st) (snd r),
                   opt_state := fst r,
                   optimizer_steps := Suc (optimizer_steps st),
                   last_epoch := Suc (last_epoch st),
                   lr := scheduled_lr (base_lr st) (num_training_steps st) (Suc (last_epoch st)),
                   total_loss := fl_add (total_loss st) (loss l),
                   printed := printed st @ [Postfix (loss l)]\<rparr>, None))"
  using assms by (simp add: train_step_def Let_def split: prod.splits)

lemma train_step_raise:
  "snd (train_step T alpha temperature b st) = Some e \<Longrightarrow>
   fst (train_step T alpha temperature b st) = st"
  by (auto simp: train_step_def Let_def split: sum.splits prod.splits)

lemma compute_loss_one:
  "\<exists>l. compute_loss [[t]] [[Fin s]] alpha temperature = Inr l
       \<and> positive_scores l = [Fin s] \<and> negative_scores l = [NInf] \<and> ranking_loss l = Fin 0"
  by (simp add: compute_loss_def extract_scores_def diag_def ncols_def fill_diagonal_def
        max_dim1_def row_max_def loss_fn_def margin_ranking_loss_def broadcast_def ones_like_def
        mean_def fl_sum_def fl_sub_def log_softmax_def log_softmax_row_def div_scalar_def
        kl_div_batchmean_def Let_def signed_inf_def)

text \<open>
  Claim C3, as the code has it. The batch step has no test of the loss: whenever the
  two forward passes and the loss computation raise nothing, whatever the value of the
  loss, finite or not, the optimizer step is applied to the student's weights with the
  gradient of this loss, the step counters of optimizer and scheduler advance by one,
  the loss is added to the running total and shown on the progress bar. Nothing else
  is reported.
\<close>

theorem train_step_updates_whatever_the_loss:
  assumes "forward (teacher_model st) (query_inputs b) (doc_inputs b) = Inr (ts, q, d)"
      and "student_loss (model st) ts q d alpha temperature (parameters (model st)) = Inr l"
  shows "\<exists>st'. train_step T alpha temperature b st = (st', None)
           \<and> (opt_state st', parameters (model st'))
               = adamw_step T (lr st)
                   (backward T (\<lambda>v. map_sum id loss (student_loss (model st) ts q d alpha temperature v))
                      (parameters (model st)))
                   (opt_state st) (parameters (model st))
           \<and> optimizer_steps st' = Suc (optimizer_steps st)
           \<and> last_epoch st' = Suc (last_epoch st)
           \<and> total_loss st' = fl_add (total_loss st) (loss l)
           \<and> printed st' = printed st @ [Postfix (loss l)]"
  by (simp add: train_step_success [OF assms] Let_def parameters_set_parameters)

theorem train_step_updates_whatever_the_loss_witness:
  "\<exists>st'. train_step toy_backend (Fin (1 / 2)) (Fin 2)
            (toy_batch [[1], [2]] [[1], [3]] [Fin 1, Fin 0]) (toy_run (Fin 1) (Fin 1)) = (st', None)
         \<and> optimizer_steps st' = Suc 0 \<and> last_epoch st' = Suc 0 \<and> opt_state st' = Suc 0
         \<and> parameters (model st') = (Fin 0, Fin 0)
         \<and> printed st' = [Postfix (total_loss st')]"
proof -
  let ?st = "toy_run (Fin 1) (Fin 1)"
  let ?b = "toy_batch [[1], [2]] [[1], [3]] [Fin 1, Fin 0]"
  let ?ts = "[[Fin 1, Fin 3], [Fin 2, Fin 6]]"
  have f: "forward (teacher_model ?st) (query_inputs ?b) (doc_inputs ?b)
             = Inr (?ts, ids [[1], [2]], ids [[1], [3]])"
    by (simp add: toy_defs fwd_defs fl_sum_def)
  have "\<exists>l. student_loss (model ?st) ?ts (ids [[1], [2]]) (ids [[1], [3]]) (Fin (1 / 2)) (Fin 2)
               (parameters (model ?st)) = Inr l"
    by (simp add: step_defs toy_defs fwd_defs loss_defs)
  then obtain l where
    l: "student_loss (model ?st) ?ts (ids [[1], [2]]) (ids [[1], [3]]) (Fin (1 / 2)) (Fin 2)
          (parameters (model ?st)) = Inr l" ..
  from train_step_updates_whatever_the_loss [OF f l, of toy_backend] show ?thesis
    by (auto simp: toy_run_def toy_backend_def toy_model_def toy_encoder_def parameters_def
          fl_sub_def fl_add_zero_left)
qed

text \<open>
  Claim C3 as stated fails: with a student whose weights are NaN, the loss of the
  batch is NaN; the step raises nothing, the optimizer step is applied, and the
  progress bar is all that is shown.
\<close>

theorem nan_loss_step_counterexample:
  "snd (train_step toy_backend (Fin (1 / 2)) (Fin 2)
          (toy_batch [[1], [2]] [[1], [3]] [Fin 1, Fin 0]) (toy_run NaN (Fin 1))) = None
   \<and> total_loss (fst (train_step toy_backend (Fin (1 / 2)) (Fin 2)
          (toy_batch [[1], [2]] [[1], [3]] [Fin 1, Fin 0]) (toy_run NaN (Fin 1)))) = NaN
   \<and> optimizer_steps (fst (train_step toy_backend (Fin (1 / 2)) (Fin 2)
          (toy_batch [[1], [2]] [[1], [3]] [Fin 1, Fin 0]) (toy_run NaN (Fin 1)))) = 1
   \<and> opt_state (fst (train_step toy_backend (Fin (1 / 2)) (Fin 2)
          (toy_batch [[1], [2]] [[1], [3]] [Fin 1, Fin 0]) (toy_run NaN (Fin 1)))) = 1
   \<and> printed (fst (train_step toy_backend (Fin (1 / 2)) (Fin 2)
          (toy_batch [[1], [2]] [[1], [3]] [Fin 1, Fin 0]) (toy_run NaN (Fin 1)))) = [Postfix NaN]"
  by (simp add: step_defs toy_defs fwd_defs loss_defs)

text \<open>
  Claim C2, as the code has it. For a batch of size one (both score matrices \<open>1\<times>1\<close>, the
  student's score finite) nothing is detected and nothing raised: the positive score is
  the one entry, the masked row maximum is negative infinity, the ranking loss is zero,
  and the batch step applies the optimizer step and the scheduler step as for any other
  batch; the loss on the progress bar is all that is shown.
\<close>

theorem batch_of_one_is_trained_on:
  assumes "forward (teacher_model st) (query_inputs b) (doc_inputs b) = Inr ([[t]], q, d)"
      and "forward (model st) q d = Inr ([[Fin s]], q', d')"
  shows "\<exists>st' l. student_loss (model st) [[t]] q d alpha temperature (parameters (model st)) = Inr l
           \<and> positive_scores l = [Fin s] \<and> negative_scores l = [NInf] \<and> ranking_loss l = Fin 0
           \<and> train_step T alpha temperature b st = (st', None)
           \<and> (opt_state st', parameters (model st'))
               = adamw_step T (lr st)
                   (backward T (\<lambda>v. map_sum id loss (student_loss (model st) [[t]] q d alpha temperature v))
                      (parameters (model st)))
                   (opt_state st) (parameters (model st))
           \<and> optimizer_steps st' = Suc (optimizer_steps st)
           \<and> last_epoch st' = Suc (last_epoch st)
           \<and> printed st' = printed st @ [Postfix (loss l)]"
proof -
  obtain l where l: "compute_loss [[t]] [[Fin s]] alpha temperature = Inr l"
    and p: "positive_scores l = [Fin s]" "negative_scores l = [NInf]" "ranking_loss l = Fin 0"
    using compute_loss_one by blast
  have sl: "student_loss (model st) [[t]] q d alpha temperature (parameters (model st)) = Inr l"
    using assms(2) l by (simp add: student_loss_def set_parameters_parameters)
  show ?thesis
    using sl p by (simp add: train_step_success [OF assms(1) sl] Let_def parameters_set_parameters)
qed


theorem batch_of_one_is_trained_on_witness:
  "\<exists>st' l. student_loss (model (toy_run (Fin 1) (Fin 1))) [[Fin 6]] (ids [[2]]) (ids [[3]])
              (Fin (1 / 2)) (Fin 2) (parameters (model (toy_run (Fin 1) (Fin 1)))) = Inr l
         \<and> positive_scores l = [Fin 6] \<and> negative_scores l = [NInf] \<and> ranking_loss l = Fin 0
         \<and> train_step toy_backend (Fin (1 / 2)) (Fin 2) (toy_batch [[2]] [[3]] [Fin 1])
              (toy_run (Fin 1) (Fin 1)) = (st', None)
         \<and> optimizer_steps st' = Suc 0 \<and> last_epoch st' = Suc 0
         \<and> parameters (model st') = (Fin 0, Fin 0)"
proof -
  let ?st = "toy_run (Fin 1) (Fin 1)"
  let ?b = "toy_batch [[2]] [[3]] [Fin 1]"
  have f: "forward (teacher_model ?st) (query_inputs ?b) (doc_inputs ?b)
             = Inr ([[Fin 6]], ids [[2]], ids [[3]])"
    by (simp add: toy_defs fwd_defs fl_sum_def)
  have g: "forward (model ?st) (ids [[2]]) (ids [[3]])
             = Inr ([[Fin 6]], pop_token_type_ids (model ?st) (ids [[2]]),
                    pop_token_type_ids (model ?st) (ids [[3]]))"
    by (simp add: toy_defs fwd_defs fl_sum_def)
  from batch_of_one_is_trained_on [OF f g, of "Fin (1 / 2)" "Fin 2" toy_backend] show ?thesis
    by (auto simp: toy_run_def toy_backend_def toy_model_def toy_encoder_def parameters_def fl_sub_def)
qed

text \<open>
  Claim C2 as stated fails: the step on a batch of one query and one document raises
  nothing, changes the student's weights and counts one optimizer step.
\<close>

theorem batch_of_one_counterexample:
  "snd (train_step toy_backend (Fin (1 / 2)) (Fin 2) (toy_batch [[2]] [[3]] [Fin 1])
          (toy_run (Fin 1) (Fin 1))) = None
   \<and> parameters (model (toy_run (Fin 1) (Fin 1))) = (Fin 1, Fin 1)
   \<and> parameters (model (fst (train_step toy_backend (Fin (1 / 2)) (Fin 2)
          (toy_batch [[2]] [[3]] [Fin 1]) (toy_run (Fin 1) (Fin 1))))) = (Fin 0, Fin 0)
   \<and> optimizer_steps (fst (train_step toy_backend (Fin (1 / 2)) (Fin 2)
          (toy_batch [[2]] [[3]] [Fin 1]) (toy_run (Fin 1) (Fin 1)))) = 1
   \<and> length (printed (fst (train_step toy_backend (Fin (1 / 2)) (Fin 2)
          (toy_batch [[2]] [[3]] [Fin 1]) (toy_run (Fin 1) (Fin 1))))) = 1"
  by (simp add: step_defs toy_defs fwd_defs loss_defs)

subsection \<open>The teacher\<close>

lemma train_step_teacher:
  "teacher_model (fst (train_step T alpha temperature b st)) = teacher_model st"
  by (simp add: train_step_def Let_def split: sum.splits prod.splits)

lemma train_batches_teacher:
  "teacher_model (fst (train_batches T alpha temperature bs st)) = teacher_model st"
proof (induction bs arbitrary: st)
  case Nil
  show ?case by simp
next
  case (Cons b bs)
  obtain st' r where s: "train_step T alpha temperature b st = (st', r)"
    by (cases "train_step T alpha temperature b st")
  have t: "teacher_model st' = teacher_model st"
    using train_step_teacher [of T alpha temperature b st] s by simp
  show ?case
  proof (cases r)
    case None
    with s t Cons.IH [of st'] show ?thesis by simp
  next
    case (Some e)
    with s t show ?thesis by simp
  qed
qed

lemma train_epoch_teacher:
  "teacher_model (fst (train_epoch T alpha temperature trl vl epochs epoch st))
     = (teacher_model st)\<lparr>training := False\<rparr>"
proof -
  let ?st1 = "st\<lparr>model := (model st)\<lparr>training := True\<rparr>,
                 teacher_model := (teacher_model st)\<lparr>training := False\<rparr>,
                 total_loss := Fin 0\<rparr>"
  obtain st2 r where b: "train_batches T alpha temperature (iter trl epoch) ?st1 = (st2, r)"
    by (cases "train_batches T alpha temperature (iter trl epoch) ?st1")
  have t: "teacher_model st2 = (teacher_model st)\<lparr>training := False\<rparr>"
    using train_batches_teacher [of T alpha temperature "iter trl epoch" ?st1] b by simp
  show ?thesis
    using b t
    by (cases r) (simp_all add: train_epoch_def Let_def split: prod.splits sum.splits)
qed

lemma train_epochs_teacher:
  "query_encoder (teacher_model (fst (train_epochs T alpha temperature trl vl epochs es st)))
     = query_encoder (teacher_model st)
   \<and> doc_encoder (teacher_model (fst (train_epochs T alpha temperature trl vl epochs es st)))
     = doc_encoder (teacher_model st)"
proof (induction es arbitrary: st)
  case Nil
  show ?case by simp
next
  case (Cons e es)
  obtain st' r where s: "train_epoch T alpha temperature trl vl epochs e st = (st', r)"
    by (cases "train_epoch T alpha temperature trl vl epochs e st")
  have t: "teacher_model st' = (teacher_model st)\<lparr>training := False\<rparr>"
    using train_epoch_teacher [of T alpha temperature trl vl epochs e st] s by simp
  show ?case
  proof (cases r)
    case None
    with s t Cons.IH [of st'] show ?thesis by simp
  next
    case (Some x)
    with s t show ?thesis by simp
  qed
qed

text \<open>
  Claim C7. Whatever the run does, and also when it stops at an exception, the
  teacher's two encoders, weights included, are at the end what they were at the
  start; a batch step leaves the teacher model as it is. The optimizer works on the
  student's parameters, and the teacher's scores enter the differentiated loss as a
  constant (see \<open>train_step\<close>).
\<close>

theorem teacher_never_updated:
  "query_encoder (teacher_model (fst (train T student teacher trl vl epochs learning_rate alpha temperature)))
     = query_encoder teacher
   \<and> doc_encoder (teacher_model (fst (train T student teacher trl vl epochs learning_rate alpha temperature)))
     = doc_encoder teacher
   \<and> parameters (teacher_model (fst (train T student teacher trl vl epochs learning_rate alpha temperature)))
     = parameters teacher
   \<and> teacher_model (fst (train_step T alpha temperature b st)) = teacher_model st"
  using train_epochs_teacher [of T alpha temperature trl vl epochs "[0..<nat epochs]"
          "init_run T student teacher trl epochs learning_rate"]
  by (simp add: train_def init_run_def Let_def parameters_def train_step_teacher)

theorem teacher_never_updated_witness:
  "parameters (teacher_model (fst (train toy_backend (toy_model True (Fin 1)) (toy_model False (Fin 2))
      (toy_loader [toy_batch [[1], [2]] [[1], [3]] [Fin 1, Fin 0]])
      (toy_loader [toy_batch [[1], [2]] [[1], [3]] [Fin 1, Fin 0]]) 2 (Fin 1) (Fin (1 / 2)) (Fin 2))))
     = (Fin 2, Fin 2)"
  using teacher_never_updated [of toy_backend "toy_model True (Fin 1)" "toy_model False (Fin 2)"
      "toy_loader [toy_batch [[1], [2]] [[1], [3]] [Fin 1, Fin 0]]"
      "toy_loader [toy_batch [[1], [2]] [[1], [3]] [Fin 1, Fin 0]]" 2 "Fin 1" "Fin (1 / 2)" "Fin 2"]
  by (simp add: toy_model_def toy_encoder_def parameters_def)

subsection \<open>The labels\<close>

lemma train_step_labels:
  "same_inputs b b' \<Longrightarrow> train_step T alpha temperature b st = train_step T alpha temperature b' st"
  by (simp add: same_inputs_def train_step_def)

lemma train_batches_labels:
  "list_all2 same_inputs bs bs' \<Longrightarrow>
   train_batches T alpha temperature bs st = train_batches T alpha temperature bs' st"
proof (induction bs bs' arbitrary: st rule: list_all2_induct)
  case Nil
  show ?case by simp
next
  case (Cons b bs b' bs')
  show ?case
    by (simp add: train_step_labels [OF Cons.hyps(1)] Cons.IH split: prod.splits option.splits)
qed

lemma evaluate_batches_labels:
  "list_all2 same_inputs bs bs' \<Longrightarrow> evaluate_batches m lf bs acc = evaluate_batches m lf bs' acc"
proof (induction bs bs' arbitrary: acc rule: list_all2_induct)
  case Nil
  show ?case by simp
next
  case (Cons b bs b' bs')
  from Cons.hyps(1) have "query_inputs b = query_inputs b'" "doc_inputs b = doc_inputs b'"
    by (simp_all add: same_inputs_def)
  then show ?case
    by (simp add: Cons.IH split: sum.splits prod.splits)
qed

lemma evaluate_labels:
  "same_inputs_loader vl vl' \<Longrightarrow> evaluate m vl k lf = evaluate m vl' k lf"
proof -
  assume a: "same_inputs_loader vl vl'"
  then have n: "num_batches vl = num_batches vl'"
    by (simp add: same_inputs_loader_def)
  have e: "\<And>m. evaluate_batches m lf (iter vl k) (Fin 0) = evaluate_batches m lf (iter vl' k) (Fin 0)"
    using a by (intro evaluate_batches_labels) (simp add: same_inputs_loader_def)
  show ?thesis
    unfolding evaluate_def e n ..
qed

lemma train_epoch_labels:
  assumes "same_inputs_loader trl trl'" "same_inputs_loader vl vl'"
  shows "train_epoch T alpha temperature trl vl epochs epoch st
           = train_epoch T alpha temperature trl' vl' epochs epoch st"
proof -
  have n: "num_batches trl = num_batches trl'"
    using assms(1) by (simp add: same_inputs_loader_def)
  have b: "\<And>s. train_batches T alpha temperature (iter trl epoch) s
               = train_batches T alpha temperature (iter trl' epoch) s"
    using assms(1) by (intro train_batches_labels) (simp add: same_inputs_loader_def)
  have e: "\<And>m. evaluate m vl epoch loss_fn = evaluate m vl' epoch loss_fn"
    by (rule evaluate_labels [OF assms(2)])
  show ?thesis
    unfolding train_epoch_def b n e ..
qed

lemma train_epochs_labels:
  assumes "same_inputs_loader trl trl'" "same_inputs_loader vl vl'"
  shows "train_epochs T alpha temperature trl vl epochs es st
           = train_epochs T alpha temperature trl' vl' epochs es st"
  by (induction es arbitrary: st) (simp_all add: train_epoch_labels [OF assms])

text \<open>
  Claim C10. Two runs whose loaders yield batches with the same query and document
  inputs, and any labels, are the same run: the same final models, optimizer and
  scheduler, the same losses shown and the same exception, if any. The same holds for
  one call of \<open>evaluate\<close> and for one batch step.
\<close>

theorem labels_never_read:
  assumes "same_inputs_loader trl trl'" and "same_inputs_loader vl vl'" and "same_inputs b b'"
  shows "train T student teacher trl vl epochs learning_rate alpha temperature
           = train T student teacher trl' vl' epochs learning_rate alpha temperature
         \<and> evaluate m vl k lf = evaluate m vl' k lf
         \<and> train_step T alpha temperature b st = train_step T alpha temperature b' st"
proof -
  have "num_batches trl = num_batches trl'"
    using assms(1) by (simp add: same_inputs_loader_def)
  then have "init_run T student teacher trl epochs learning_rate
               = init_run T student teacher trl' epochs learning_rate"
    by (simp add: init_run_def)
  then show ?thesis
    by (simp add: train_def train_epochs_labels [OF assms(1,2)] evaluate_labels [OF assms(2)]
          train_step_labels [OF assms(3)])
qed

theorem labels_never_read_witness:
  "train toy_backend (toy_model True (Fin 1)) (toy_model False (Fin 2))
      (toy_loader [toy_batch [[1], [2]] [[1], [3]] [Fin 1, Fin 0]])
      (toy_loader [toy_batch [[1], [2]] [[1], [3]] [Fin 1, Fin 0]]) 2 (Fin 1) (Fin (1 / 2)) (Fin 2)
   = train toy_backend (toy_model True (Fin 1)) (toy_model False (Fin 2))
      (toy_loader [toy_batch [[1], [2]] [[1], [3]] [Fin 0, Fin 3]])
      (toy_loader [toy_batch [[1], [2]] [[1], [3]] [Fin 2, Fin 2]]) 2 (Fin 1) (Fin (1 / 2)) (Fin 2)"
proof -
  have a: "same_inputs_loader (toy_loader [toy_batch [[1], [2]] [[1], [3]] [Fin 1, Fin 0]])
             (toy_loader [toy_batch [[1], [2]] [[1], [3]] [Fin 0, Fin 3]])"
    by (simp add: same_inputs_loader_def toy_loader_def same_inputs_def toy_batch_def)
  have b: "same_inputs_loader (toy_loader [toy_batch [[1], [2]] [[1], [3]] [Fin 1, Fin 0]])
             (toy_loader [toy_batch [[1], [2]] [[1], [3]] [Fin 2, Fin 2]])"
    by (simp add: same_inputs_loader_def toy_loader_def same_inputs_def toy_batch_def)
  have c: "same_inputs (toy_batch [[2]] [[3]] [Fin 1]) (toy_batch [[2]] [[3]] [Fin 0])"
    by (simp add: same_inputs_def toy_batch_def)
  from labels_never_read [OF a b c] show ?thesis by blast
qed

subsection \<open>Evaluation\<close>

lemma evaluate_batches_square:
  assumes "list_all2 (square_scores m) bs Ss"
  shows "evaluate_batches m loss_fn bs acc = Inr (foldl fl_add acc (map spec_ranking_loss Ss))"
  using assms
proof (induction bs Ss arbitrary: acc rule: list_all2_induct)
  case Nil
  show ?case by simp
next
  case (Cons b bs S Ss)
  from Cons.hyps(1) obtain q d where
    f: "forward m (query_inputs b) (doc_inputs b) = Inr (S, q, d)"
    by (cases "forward m (query_inputs b) (doc_inputs b)") (auto simp: square_scores_def)
  from Cons.hyps(1) have "2 \<le> length S" and "\<forall>r\<in>set S. length r = length S"
    by (simp_all add: square_scores_def list_all_iff)
  from ranking_pipeline_square [OF this] obtain pos neg M' where
    e: "extract_scores S = Inr (pos, neg, M')" and
    l: "loss_fn pos neg (ones_like pos) = Inr (spec_ranking_loss S)"
    by blast
  show ?case
    by (simp add: f e l Cons.IH)
qed

lemma evaluate_model: "fst (evaluate m vl k lf) = m\<lparr>training := False\<rparr>"
  by (simp add: evaluate_def Let_def)

text \<open>
  Claim C8. \<open>evaluate\<close> takes the student and the validation loader, no teacher. When
  every validation batch has a \<open>B\<times>B\<close> score matrix with \<open>B \<ge> 2\<close> and the loader is not
  empty, what it prints is the sum over the batches of the ranking loss of the
  specification, divided by \<open>len(val_loader)\<close>: no distillation term. Whatever the
  loader and the loss function, the model afterwards is the model before, in
  evaluation mode: no parameter has changed.
\<close>

theorem evaluate_mean_ranking_loss:
  assumes "list_all2 (square_scores (m\<lparr>training := False\<rparr>)) (iter vl k) Ss"
      and "0 < num_batches vl"
  shows "snd (evaluate m vl k loss_fn)
           = Inr (fl_div (fl_sum (map spec_ranking_loss Ss)) (Fin (real (num_batches vl))))
         \<and> fst (evaluate m vl' k' lf) = m\<lparr>training := False\<rparr>
         \<and> parameters (fst (evaluate m vl' k' lf)) = parameters m"
  using assms(2)
  by (simp add: evaluate_def Let_def evaluate_batches_square [OF assms(1)] fl_sum_def parameters_def)

theorem evaluate_mean_ranking_loss_witness:
  "snd (evaluate (toy_model True (Fin 1)) (toy_loader [toy_batch [[1], [2]] [[1], [3]] [Fin 1, Fin 0]])
          0 loss_fn) = Inr (Fin (3 / 2))
   \<and> parameters (fst (evaluate (toy_model True (Fin 1))
          (toy_loader [toy_batch [[1], [2]] [[1], [3]] [Fin 1, Fin 0]]) 0 loss_fn)) = (Fin 1, Fin 1)"
proof -
  let ?m = "toy_model True (Fin 1)"
  let ?vl = "toy_loader [toy_batch [[1], [2]] [[1], [3]] [Fin 1, Fin 0]]"
  let ?S = "[[Fin 1, Fin 3], [Fin 2, Fin 6]]"
  have s: "list_all2 (square_scores (?m\<lparr>training := False\<rparr>)) (iter ?vl 0) [?S]"
    by (simp add: square_scores_def toy_loader_def toy_defs fwd_defs fl_sum_def)
  have n: "0 < num_batches ?vl" by (simp add: toy_loader_def)
  have v: "spec_ranking_loss ?S = Fin (3 / 2)"
    by (simp add: spec_ranking_loss_def spec_neg_def row_max_def mean_def fl_sum_def fl_sub_def)
  from evaluate_mean_ranking_loss [OF s n, of ?vl 0 loss_fn] show ?thesis
    by (simp add: v fl_sum_def toy_loader_def toy_model_def toy_encoder_def parameters_def)
qed

subsection \<open>The learning-rate schedule\<close>

lemma lr_lambda_linear:
  assumes "0 < steps" and "0 \<le> k" and "k \<le> steps"
  shows "lr_lambda 0 steps k = real_of_int (steps - k) / real_of_int steps"
proof -
  have "0 \<le> real_of_int (steps - k) / real_of_int steps"
    using assms by simp
  then show ?thesis
    using assms by (simp add: lr_lambda_def max_def)
qed

lemma scheduled_lr_linear:
  assumes "0 < steps" and "int k \<le> steps"
  shows "scheduled_lr (Fin r) steps k = Fin (r * (real_of_int (steps - int k) / real_of_int steps))"
  using assms by (simp add: scheduled_lr_def lr_lambda_linear)

lemma scheduled_lr_first: "0 < steps \<Longrightarrow> scheduled_lr (Fin r) steps 0 = Fin r"
  by (simp add: scheduled_lr_linear)

lemma scheduled_lr_last: "0 < steps \<Longrightarrow> scheduled_lr (Fin r) steps (nat steps) = Fin 0"
  by (simp add: scheduled_lr_linear)

lemma train_step_None:
  assumes "train_step T alpha temperature b st = (st', None)"
  shows "last_epoch st' = Suc (last_epoch st) \<and> optimizer_steps st' = Suc (optimizer_steps st)
         \<and> base_lr st' = base_lr st \<and> num_training_steps st' = num_training_steps st
         \<and> lr st' = scheduled_lr (base_lr st) (num_training_steps st) (Suc (last_epoch st))
         \<and> (\<exists>g. (opt_state st', parameters (model st'))
                  = adamw_step T (lr st) g (opt_state st) (parameters (model st)))"
  using assms
  by (auto simp: train_step_def Let_def parameters_set_parameters split: sum.splits prod.splits)
     (rule exI, erule sym)

text \<open>What the scheduler keeps true between batch steps.\<close>

lemma train_batches_count:
  assumes "train_batches T alpha temperature bs st = (st', None)"
      and "lr st = scheduled_lr (base_lr st) (num_training_steps st) (last_epoch st)"
  shows "last_epoch st' = last_epoch st + length bs
         \<and> optimizer_steps st' = optimizer_steps st + length bs
         \<and> base_lr st' = base_lr st \<and> num_training_steps st' = num_training_steps st
         \<and> lr st' = scheduled_lr (base_lr st') (num_training_steps st') (last_epoch st')"
  using assms
proof (induction bs arbitrary: st)
  case Nil
  then show ?case by simp
next
  case (Cons b bs)
  obtain st1 r where s: "train_step T alpha temperature b st = (st1, r)"
    by (cases "train_step T alpha temperature b st")
  with Cons.prems(1) have r: "r = None" and rest: "train_batches T alpha temperature bs st1 = (st', None)"
    by (cases r; simp)+
  note f = train_step_None [OF s [unfolded r]]
  have inv: "lr st1 = scheduled_lr (base_lr st1) (num_training_steps st1) (last_epoch st1)"
    using f by simp
  from Cons.IH [OF rest inv] f show ?case by simp
qed

lemma train_epoch_count:
  assumes "train_epoch T alpha temperature trl vl epochs epoch st = (st', None)"
      and "lr st = scheduled_lr (base_lr st) (num_training_steps st) (last_epoch st)"
  shows "last_epoch st' = last_epoch st + length (iter trl epoch)
         \<and> optimizer_steps st' = optimizer_steps st + length (iter trl epoch)
         \<and> base_lr st' = base_lr st \<and> num_training_steps st' = num_training_steps st
         \<and> lr st' = scheduled_lr (base_lr st') (num_training_steps st') (last_epoch st')"
proof -
  let ?st1 = "st\<lparr>model := (model st)\<lparr>training := True\<rparr>,
                 teacher_model := (teacher_model st)\<lparr>training := False\<rparr>,
                 total_loss := Fin 0\<rparr>"
  obtain st2 r where b: "train_batches T alpha temperature (iter trl epoch) ?st1 = (st2, r)"
    by (cases "train_batches T alpha temperature (iter trl epoch) ?st1")
  have r: "r = None"
    using assms(1) b by (cases r) (simp_all add: train_epoch_def)
  have inv: "lr ?st1 = scheduled_lr (base_lr ?st1) (num_training_steps ?st1) (last_epoch ?st1)"
    using assms(2) by simp
  note c = train_batches_count [OF b [unfolded r] inv]
  show ?thesis
    using assms(1) b r c
    by (auto simp: train_epoch_def Let_def split: if_splits prod.splits sum.splits)
qed

lemma train_epochs_count:
  assumes "train_epochs T alpha temperature trl vl epochs es st = (st', None)"
      and "lr st = scheduled_lr (base_lr st) (num_training_steps st) (last_epoch st)"
      and "\<forall>k. length (iter trl k) = n"
  shows "last_epoch st' = last_epoch st + length es * n
         \<and> optimizer_steps st' = optimizer_steps st + length es * n
         \<and> base_lr st' = base_lr st \<and> num_training_steps st' = num_training_steps st
         \<and> lr st' = scheduled_lr (base_lr st') (num_training_steps st') (last_epoch st')"
  using assms(1,2)
proof (induction es arbitrary: st)
  case Nil
  then show ?case by simp
next
  case (Cons e es)
  obtain st1 r where s: "train_epoch T alpha temperature trl vl epochs e st = (st1, r)"
    by (cases "train_epoch T alpha temperature trl vl epochs e st")
  with Cons.prems(1) have r: "r = None"
    and rest: "train_epochs T alpha temperature trl vl epochs es st1 = (st', None)"
    by (cases r; simp)+
  note f = train_epoch_count [OF s [unfolded r] Cons.prems(2)]
  have inv: "lr st1 = scheduled_lr (base_lr st1) (num_training_steps st1) (last_epoch st1)"
    using f by simp
  from Cons.IH [OF rest inv] f assms(3) show ?case by (simp add: algebra_simps)
qed

lemma train_count:
  assumes "0 < epochs" and "0 < num_batches trl" and "\<forall>k. length (iter trl k) = num_batches trl"
      and "train T student teacher trl vl epochs (Fin r) alpha temperature = (st', None)"
  shows "last_epoch st' = nat (int (num_batches trl) * epochs)
         \<and> optimizer_steps st' = last_epoch st' \<and> lr st' = Fin 0"
proof -
  let ?st0 = "init_run T student teacher trl epochs (Fin r)"
  let ?steps = "int (num_batches trl) * epochs"
  have pos: "0 < ?steps" using assms(1,2) by simp
  have inv: "lr ?st0 = scheduled_lr (base_lr ?st0) (num_training_steps ?st0) (last_epoch ?st0)"
    by (simp add: init_run_def Let_def)
  have run: "train_epochs T alpha temperature trl vl epochs [0..<nat epochs] ?st0 = (st', None)"
    using assms(4) by (simp add: train_def)
  note c = train_epochs_count [OF run inv assms(3)]
  have le: "last_epoch st' = nat epochs * num_batches trl"
    using c by (simp add: init_run_def Let_def)
  also have "\<dots> = nat ?steps"
    using assms(1) by (simp add: nat_mult_distrib mult.commute)
  finally have l: "last_epoch st' = nat ?steps" .
  have o: "optimizer_steps st' = last_epoch st'"
    using c by (simp add: init_run_def Let_def)
  have "lr st' = scheduled_lr (Fin r) ?steps (nat ?steps)"
    using c l by (simp add: init_run_def Let_def)
  with pos have "lr st' = Fin 0" by (simp add: scheduled_lr_last)
  with l o show ?thesis by simp
qed

text \<open>
  Claim C9. For a run of \<open>epochs > 0\<close> epochs over a training loader of \<open>n > 0\<close> batches
  per pass: the scheduler is built without warmup over \<open>n \<times> epochs\<close> steps, its counter
  starts at zero and the first learning rate is the configured one; the rate at counter
  \<open>k\<close> is the configured rate times \<open>(n \<times> epochs - k) / (n \<times> epochs)\<close>, which is zero
  at the last step. A batch step that raises nothing makes one optimizer step, with the
  rate the optimizer held before the step, and then advances the scheduler's counter by
  one and sets the rate of the new counter. A run that completes has made
  \<open>n \<times> epochs\<close> optimizer steps and as many scheduler steps, and ends at rate zero.
\<close>

theorem linear_schedule_and_step_order:
  assumes "0 < epochs" and "0 < num_batches trl" and "\<forall>k. length (iter trl k) = num_batches trl"
      and "train T student teacher trl vl epochs (Fin r) alpha temperature = (st_end, None)"
      and "train_step T alpha temperature b st = (st', None)"
      and "int k \<le> int (num_batches trl) * epochs"
  shows "num_training_steps (init_run T student teacher trl epochs (Fin r))
           = int (num_batches trl) * epochs
         \<and> last_epoch (init_run T student teacher trl epochs (Fin r)) = 0
         \<and> lr (init_run T student teacher trl epochs (Fin r)) = Fin r
         \<and> scheduled_lr (Fin r) (int (num_batches trl) * epochs) k
             = Fin (r * (real_of_int (int (num_batches trl) * epochs - int k)
                         / real_of_int (int (num_batches trl) * epochs)))
         \<and> scheduled_lr (Fin r) (int (num_batches trl) * epochs)
              (nat (int (num_batches trl) * epochs)) = Fin 0
         \<and> (\<exists>g. (opt_state st', parameters (model st'))
                  = adamw_step T (lr st) g (opt_state st) (parameters (model st)))
         \<and> optimizer_steps st' = Suc (optimizer_steps st)
         \<and> last_epoch st' = Suc (last_epoch st)
         \<and> lr st' = scheduled_lr (base_lr st) (num_training_steps st) (Suc (last_epoch st))
         \<and> last_epoch st_end = nat (int (num_batches trl) * epochs)
         \<and> optimizer_steps st_end = last_epoch st_end
         \<and> lr st_end = Fin 0"
proof -
  have pos: "0 < int (num_batches trl) * epochs" using assms(1,2) by simp
  have i: "lr (init_run T student teacher trl epochs (Fin r)) = Fin r"
    using pos by (simp add: init_run_def Let_def scheduled_lr_first)
  show ?thesis
    using train_count [OF assms(1-4)] train_step_None [OF assms(5)]
      scheduled_lr_linear [OF pos assms(6)] scheduled_lr_last [OF pos] i
    by (simp add: init_run_def Let_def)
qed


theorem linear_schedule_and_step_order_witness:
  "lr (init_run toy_backend (toy_model True (Fin 1)) (toy_model False (Fin 2))
         (toy_loader [toy_batch [[1], [2]] [[1], [3]] [Fin 1, Fin 0],
                      toy_batch [[2], [2]] [[1], [1]] [Fin 1, Fin 0]]) 3 (Fin 1)) = Fin 1
   \<and> scheduled_lr (Fin 1) 6 3 = Fin (1 / 2)
   \<and> scheduled_lr (Fin 1) 6 6 = Fin 0
   \<and> last_epoch (fst (train toy_backend (toy_model True (Fin 1)) (toy_model False (Fin 2))
         (toy_loader [toy_batch [[1], [2]] [[1], [3]] [Fin 1, Fin 0],
                      toy_batch [[2], [2]] [[1], [1]] [Fin 1, Fin 0]])
         (toy_loader [toy_batch [[1], [2]] [[1], [3]] [Fin 1, Fin 0]]) 3 (Fin 1) (Fin (1 / 2)) (Fin 2)))
       = 6
   \<and> lr (fst (train toy_backend (toy_model True (Fin 1)) (toy_model False (Fin 2))
         (toy_loader [toy_batch [[1], [2]] [[1], [3]] [Fin 1, Fin 0],
                      toy_batch [[2], [2]] [[1], [1]] [Fin 1, Fin 0]])
         (toy_loader [toy_batch [[1], [2]] [[1], [3]] [Fin 1, Fin 0]]) 3 (Fin 1) (Fin (1 / 2)) (Fin 2)))
       = Fin 0
   \<and> last_epoch (fst (train_step toy_backend (Fin (1 / 2)) (Fin 2)
         (toy_batch [[1], [2]] [[1], [3]] [Fin 1, Fin 0]) (toy_run (Fin 1) (Fin 1)))) = 1"
proof -
  let ?trl = "toy_loader [toy_batch [[1], [2]] [[1], [3]] [Fin 1, Fin 0],
                          toy_batch [[2], [2]] [[1], [1]] [Fin 1, Fin 0]]"
  let ?vl = "toy_loader [toy_batch [[1], [2]] [[1], [3]] [Fin 1, Fin 0]]"
  let ?run = "train toy_backend (toy_model True (Fin 1)) (toy_model False (Fin 2)) ?trl ?vl 3
                (Fin 1) (Fin (1 / 2)) (Fin 2)"
  let ?step = "train_step toy_backend (Fin (1 / 2)) (Fin 2)
                 (toy_batch [[1], [2]] [[1], [3]] [Fin 1, Fin 0]) (toy_run (Fin 1) (Fin 1))"
  have e: "(0::int) < 3" by simp
  have n: "0 < num_batches ?trl" by (simp add: toy_loader_def)
  have p: "\<forall>k. length (iter ?trl k) = num_batches ?trl" by (simp add: toy_loader_def)
  have "snd ?run = None"
    by (simp add: train_def init_run_def train_epoch_def evaluate_def toy_loader_def step_defs
          toy_defs fwd_defs loss_defs numeral_3_eq_3)
  then have r: "?run = (fst ?run, None)" by (simp add: prod_eq_iff)
  have "snd ?step = None"
    by (simp add: step_defs toy_defs fwd_defs loss_defs)
  then have s: "?step = (fst ?step, None)" by (simp add: prod_eq_iff)
  have k: "int 3 \<le> int (num_batches ?trl) * 3" by (simp add: toy_loader_def)
  from linear_schedule_and_step_order [OF e n p r s k] show ?thesis
    by (simp add: toy_loader_def toy_run_def)
qed

end
